theory Spec2Isabelle
  imports Complex_Main
begin

section \<open>Python values and exceptions\<close>

text \<open>
  The scripts read records that \<open>json.load\<close> produced. The fields they read hold JSON
  scalars, so a value is \<open>None\<close> (JSON null), a boolean, an integer or a string. Floats
  and nested containers are left out: no function modelled here reads the \<open>choices\<close>
  dictionary, and a float has no faithful counterpart in HOL.
\<close>

datatype pyval = PNone | PBool bool | PInt int | PStr string

datatype exn =
    KeyError string
  | ValueError string
  | IndexError string
  | AttributeError string
  | JSONDecodeError
  | ChromaError string
  | ReError string
  | HTTPException nat string

text \<open>Decimal rendering of a natural number, as \<open>str\<close> and f-strings print it.\<close>

fun show_nat :: "nat \<Rightarrow> string" where
  "show_nat n =
     (if n < 10 then [''0123456789'' ! n]
      else show_nat (n div 10) @ [''0123456789'' ! (n mod 10)])"

declare show_nat.simps [simp del]

definition show_int :: "int \<Rightarrow> string" where
  "show_int i = (if i < 0 then ''-'' @ show_nat (nat (- i)) else show_nat (nat i))"

text \<open>\<open>str(v)\<close>, which is also what \<open>{v}\<close> inside an f-string renders.\<close>

fun py_str :: "pyval \<Rightarrow> string" where
  "py_str PNone = ''None''"
| "py_str (PBool b) = (if b then ''True'' else ''False'')"
| "py_str (PInt i) = show_int i"
| "py_str (PStr s) = s"

text \<open>Truthiness, as the operator \<open>or\<close> tests it.\<close>

fun truthy :: "pyval \<Rightarrow> bool" where
  "truthy PNone = False"
| "truthy (PBool b) = b"
| "truthy (PInt i) = (i \<noteq> 0)"
| "truthy (PStr s) = (s \<noteq> [])"

text \<open>\<open>sep.join(xs)\<close>.\<close>

fun join :: "string \<Rightarrow> string list \<Rightarrow> string" where
  "join sep [] = []"
| "join sep [x] = x"
| "join sep (x # y # ys) = x @ sep @ join sep (y # ys)"

text \<open>\<open>str(e)\<close> of an exception: a \<open>KeyError\<close> prints the repr of its key.\<close>

fun exn_str :: "exn \<Rightarrow> string" where
  "exn_str (KeyError k) = [CHR 0x27] @ k @ [CHR 0x27]"
| "exn_str (ValueError m) = m"
| "exn_str (IndexError m) = m"
| "exn_str (AttributeError m) = m"
| "exn_str JSONDecodeError = ''Expecting value''"
| "exn_str (ChromaError m) = m"
| "exn_str (ReError m) = m"
| "exn_str (HTTPException c m) = m"

section \<open>app/rag\_engine.py and app/main.py: the query pipeline\<close>

text \<open>
  \<open>collection.query\<close> belongs to the vector store library, so it is a parameter of the
  model: given the query texts and \<open>n_results\<close> it raises or returns a result whose
  \<open>documents\<close> and \<open>metadatas\<close> hold one inner list per query text. The metadata the
  ingestion script stores maps strings to strings.
\<close>

type_synonym metadata = "string \<rightharpoonup> string"

record query_result =
  qr_documents :: "string list list"
  qr_metadatas :: "metadata list list"

type_synonym collection_query = "string list \<Rightarrow> nat \<Rightarrow> exn + query_result"

text \<open>\<open>xs[0]\<close> raises \<open>IndexError\<close> on an empty list.\<close>

fun index0 :: "'a list \<Rightarrow> exn + 'a" where
  "index0 [] = Inl (IndexError ''list index out of range'')"
| "index0 (x # xs) = Inr x"

text \<open>\<open>d.get(k, default)\<close>.\<close>

definition dict_get :: "('k \<rightharpoonup> 'v) \<Rightarrow> 'k \<Rightarrow> 'v \<Rightarrow> 'v" where
  "dict_get d k dflt = (case d k of None \<Rightarrow> dflt | Some v \<Rightarrow> v)"

text \<open>
  \<open>search_knowledge\<close> has two return statements of different shapes: a bare string when
  nothing was found, and a pair otherwise.
\<close>

datatype search_ret = RStr string | RTuple string string

definition search_knowledge :: "collection_query \<Rightarrow> string \<Rightarrow> nat \<Rightarrow> exn + search_ret" where
  "search_knowledge query_fn query n_results =
     (case query_fn [query] n_results of
        Inl e \<Rightarrow> Inl e
      | Inr results \<Rightarrow>
          (case index0 (qr_documents results) of
             Inl e \<Rightarrow> Inl e
           | Inr docs \<Rightarrow>
               if docs = [] then Inr (RStr ''No relevant textbook info found.'')
               else
                 (case index0 (qr_metadatas results) of
                    Inl e \<Rightarrow> Inl e
                  | Inr metas \<Rightarrow>
                      (case index0 metas of
                         Inl e \<Rightarrow> Inl e
                       | Inr m \<Rightarrow>
                           Inr (RTuple (join '' '' docs) (dict_get m ''topic'' ''General''))))))"

text \<open>
  \<open>context, topic = v\<close> iterates \<open>v\<close> and needs exactly two items. A pair gives its
  components; a string gives its characters, so only a two-character string unpacks.
\<close>

fun unpack2 :: "search_ret \<Rightarrow> exn + (string \<times> string)" where
  "unpack2 (RTuple a b) = Inr (a, b)"
| "unpack2 (RStr s) =
     (if length s = 2 then Inr ([s ! 0], [s ! 1])
      else if 2 < length s then Inl (ValueError ''too many values to unpack (expected 2)'')
      else Inl (ValueError (''not enough values to unpack (expected 2, got ''
                              @ show_nat (length s) @ '')'')))"

record context_response =
  answer_context :: string
  source_topic :: string
  confidence_score :: real

text \<open>
  The default \<open>n_results=2\<close> of \<open>search_knowledge\<close> is what \<open>retrieve_context\<close> uses. The
  result pairs the lines printed with the outcome: the response, or the
  \<open>HTTPException\<close> raised by the handler of the \<open>try\<close> block.
\<close>

definition retrieve_context ::
  "collection_query \<Rightarrow> string \<Rightarrow> string list \<times> (exn + context_response)" where
  "retrieve_context query_fn question_text =
     (let printed = [''Received query: '' @ question_text];
          attempt =
            (case search_knowledge query_fn question_text 2 of
               Inl e \<Rightarrow> Inl e
             | Inr v \<Rightarrow>
                 (case unpack2 v of
                    Inl e \<Rightarrow> Inl e
                  | Inr (context, topic) \<Rightarrow>
                      Inr \<lparr>answer_context = context, source_topic = topic,
                           confidence_score = 0.95\<rparr>))
      in case attempt of
           Inr response \<Rightarrow> (printed, Inr response)
         | Inl e \<Rightarrow>
             (printed @ [''Error: '' @ exn_str e], Inl (HTTPException 500 (exn_str e))))"

section \<open>scripts/2\_build\_db.py: the ingestion pipeline\<close>

text \<open>
  A corpus record is the dictionary \<open>json.load\<close> built for one JSON object. The data
  file is absent, unreadable as JSON, or holds the list of records.
\<close>

type_synonym item = "string \<rightharpoonup> pyval"

datatype data_file = NoFile | BadJson | Corpus "item list"

text \<open>
  One call of \<open>collection.add\<close> receives three parallel lists: ids, documents and
  metadatas.
\<close>

type_synonym batch = "string list \<times> string list \<times> metadata list"

text \<open>
  The vector store is a library, so its two operations on a collection are parameters:
  the content of a newly created collection, and \<open>collection.add\<close>, which returns the
  exception it raised, if any, together with the content it left behind (a failed call
  may have applied part of its batch).
\<close>

record 'c chroma =
  empty_collection :: 'c
  collection_add :: "'c \<Rightarrow> batch \<Rightarrow> exn option \<times> 'c"

text \<open>
  What the script can change: the collections of the persistent client, by name, and
  the lines printed so far.
\<close>

record 'c world =
  collections :: "string \<rightharpoonup> 'c"
  out :: "string list"

definition delete_collection :: "(string \<rightharpoonup> 'c) \<Rightarrow> string \<Rightarrow> exn + (string \<rightharpoonup> 'c)" where
  "delete_collection cols name =
     (case cols name of
        None \<Rightarrow> Inl (ValueError (''Collection '' @ name @ '' does not exist.''))
      | Some c \<Rightarrow> Inr (cols(name := None)))"

definition create_collection ::
  "'c chroma \<Rightarrow> (string \<rightharpoonup> 'c) \<Rightarrow> string \<Rightarrow> exn + (string \<rightharpoonup> 'c)" where
  "create_collection db cols name =
     (case cols name of
        Some c \<Rightarrow> Inl (ChromaError (''Collection '' @ name @ '' already exists''))
      | None \<Rightarrow> Inr (cols(name \<mapsto> empty_collection db)))"

text \<open>The f-string of line 38: an absent \<open>prompt\<close> or \<open>lecture\<close> reads as \<open>''\<close>.\<close>

definition combined_text :: "item \<Rightarrow> string" where
  "combined_text item =
     ''Question: '' @ py_str (dict_get item ''prompt'' (PStr []))
       @ '' Context: '' @ py_str (dict_get item ''lecture'' (PStr []))"

text \<open>\<open>str(item.get(k) or default)\<close>: an absent key reads as \<open>None\<close>, which is falsy.\<close>

definition get_or :: "item \<Rightarrow> string \<Rightarrow> string \<Rightarrow> string" where
  "get_or item k dflt =
     (case item k of
        None \<Rightarrow> dflt
      | Some v \<Rightarrow> if truthy v then py_str v else dflt)"

definition metadata_of :: "item \<Rightarrow> metadata" where
  "metadata_of item =
     [''subject'' \<mapsto> get_or item ''subject'' ''General'',
      ''topic'' \<mapsto> get_or item ''topic'' ''General'',
      ''solution'' \<mapsto> get_or item ''solution'' []]"

text \<open>
  The loop of lines 37 to 46 appends to the three lists; \<open>item['id']\<close> raises
  \<open>KeyError\<close> when the record has no id, and the loop ends there.
\<close>

fun process_items :: "item list \<Rightarrow> batch \<Rightarrow> exn + batch" where
  "process_items [] acc = Inr acc"
| "process_items (item # rest) (ids, documents, metadatas) =
     (case item ''id'' of
        None \<Rightarrow> Inl (KeyError ''id'')
      | Some v \<Rightarrow>
          process_items rest
            (ids @ [py_str v], documents @ [combined_text item],
             metadatas @ [metadata_of item]))"

definition batch_size :: nat where
  "batch_size = 500"

text \<open>\<open>range(0, stop, step)\<close> for a positive step, and the slice \<open>xs[i:j]\<close>.\<close>

definition py_range0 :: "nat \<Rightarrow> nat \<Rightarrow> nat list" where
  "py_range0 stop step = map (\<lambda>k. k * step) [0..<(stop + step - 1) div step]"

definition slice :: "nat \<Rightarrow> nat \<Rightarrow> 'a list \<Rightarrow> 'a list" where
  "slice i j xs = take (j - i) (drop i xs)"

definition batch_at :: "batch \<Rightarrow> nat \<Rightarrow> batch" where
  "batch_at all i =
     (case all of (ids, documents, metadatas) \<Rightarrow>
        (slice i (i + batch_size) ids,
         slice i (i + batch_size) documents,
         slice i (i + batch_size) metadatas))"

text \<open>The line printed after a batch was added.\<close>

definition added_line :: "nat \<Rightarrow> nat \<Rightarrow> string" where
  "added_line i total_batches =
     ''   Added batch '' @ show_nat (i div batch_size + 1) @ ''/''
       @ show_nat total_batches @ ''...''"

text \<open>
  The loop of lines 52 to 64 over the start indices. The call of \<open>collection.add\<close> is
  not inside any \<open>try\<close>: when it raises, the loop and the script end with that
  exception, and the collection keeps what the call left behind.
\<close>

fun add_batches ::
  "'c chroma \<Rightarrow> batch \<Rightarrow> nat \<Rightarrow> nat list \<Rightarrow> 'c \<times> string list
     \<Rightarrow> exn option \<times> 'c \<times> string list" where
  "add_batches db all total_batches [] (c, printed) = (None, c, printed)"
| "add_batches db all total_batches (i # rest) (c, printed) =
     (let b = batch_at all i in
      if fst b \<noteq> [] then
        (case collection_add db c b of
           (Some e, c') \<Rightarrow> (Some e, c', printed)
         | (None, c') \<Rightarrow>
             add_batches db all total_batches rest (c', printed @ [added_line i total_batches]))
      else add_batches db all total_batches rest (c, printed))"

definition build_knowledge_base ::
  "'c chroma \<Rightarrow> data_file \<Rightarrow> 'c world \<Rightarrow> exn option \<times> 'c world" where
  "build_knowledge_base db file w =
     (let w1 = w\<lparr>out := out w @ [''Building Vector Database...'']\<rparr> in
      case file of
        NoFile \<Rightarrow>
          (None, w1\<lparr>out := out w1
             @ [''Error: data/cleaned_exam.json not found. Did you run script 1?'']\<rparr>)
      | BadJson \<Rightarrow> (Some JSONDecodeError, w1)
      | Corpus data \<Rightarrow>
          (let cols1 =
                 (case delete_collection (collections w1) ''exam_knowledge'' of
                    Inl e \<Rightarrow> collections w1
                  | Inr cols \<Rightarrow> cols)
           in case create_collection db cols1 ''exam_knowledge'' of
                Inl e \<Rightarrow> (Some e, w1\<lparr>collections := cols1\<rparr>)
              | Inr cols2 \<Rightarrow>
                  (let w2 = w1\<lparr>collections := cols2,
                               out := out w1 @ [''Processing '' @ show_nat (length data)
                                                 @ '' items...'']\<rparr>
                   in case process_items data ([], [], []) of
                        Inl e \<Rightarrow> (Some e, w2)
                      | Inr all \<Rightarrow>
                          (let total_batches = length (fst all) div batch_size + 1 in
                           case add_batches db all total_batches
                                  (py_range0 (length (fst all)) batch_size)
                                  (empty_collection db, out w2) of
                             (r, c, printed) \<Rightarrow>
                               (let w3 = w2\<lparr>collections := cols2(''exam_knowledge'' \<mapsto> c),
                                            out := printed\<rparr>
                                in case r of
                                     Some e \<Rightarrow> (Some e, w3)
                                   | None \<Rightarrow>
                                       (None, w3\<lparr>out := out w3
                                          @ [''Database built successfully in /vector_store!'']\<rparr>))))))"

text \<open>
  A store that keeps the batches it was handed, in call order, and raises on the
  batches \<open>fails\<close> picks without applying any of them. With \<open>fails\<close> always \<open>None\<close> it
  is the store in which every call succeeds.
\<close>

definition trace_db :: "(batch \<Rightarrow> exn option) \<Rightarrow> (batch list) chroma" where
  "trace_db fails =
     \<lparr>empty_collection = [],
      collection_add = (\<lambda>c b. case fails b of Some e \<Rightarrow> (Some e, c) | None \<Rightarrow> (None, c @ [b]))\<rparr>"

definition never :: "batch \<Rightarrow> exn option" where
  "never b = None"

text \<open>The indexed documents a list of batches amounts to: id, document text, metadata.\<close>

fun entries :: "batch \<Rightarrow> (string \<times> string \<times> metadata) list" where
  "entries (ids, documents, metadatas) = zip ids (zip documents metadatas)"

definition indexed :: "batch list \<Rightarrow> (string \<times> string \<times> metadata) list" where
  "indexed bs = concat (map entries bs)"

text \<open>
  What the loop over the records appends for a record that has an id, and the batches
  the second loop cuts from the three lists of a corpus.
\<close>

definition str_id :: "item \<Rightarrow> string" where
  "str_id item = py_str (dict_get item ''id'' PNone)"

definition entry_of :: "item \<Rightarrow> string \<times> string \<times> metadata" where
  "entry_of item = (str_id item, combined_text item, metadata_of item)"

definition all_of :: "item list \<Rightarrow> batch" where
  "all_of data = (map str_id data, map combined_text data, map metadata_of data)"

definition planned :: "item list \<Rightarrow> batch list" where
  "planned data = map (batch_at (all_of data)) (py_range0 (length data) batch_size)"

text \<open>The exception of the first batch on which the store raises, if there is one.\<close>

definition first_failure :: "(batch \<Rightarrow> exn option) \<Rightarrow> batch list \<Rightarrow> exn option" where
  "first_failure fails bs =
     (case dropWhile (\<lambda>b. fails b = None) bs of [] \<Rightarrow> None | b # rest \<Rightarrow> fails b)"

definition has_id :: "item \<Rightarrow> bool" where
  "has_id item = (item ''id'' \<noteq> None)"

text \<open>
  The lines a run over a corpus prints before its last one, when \<open>k\<close> batches were
  added.
\<close>

definition run_lines :: "item list \<Rightarrow> nat \<Rightarrow> string list" where
  "run_lines data k =
     [''Building Vector Database...'',
      ''Processing '' @ show_nat (length data) @ '' items...'']
     @ map (\<lambda>i. added_line i (length data div batch_size + 1))
         (take k (py_range0 (length data) batch_size))"

section \<open>Eligibility of a record, as the specification words it\<close>



section \<open>app/quiz\_engine.py: the quiz generator\<close>

text \<open>
  The module loads the cleaned corpus into a data frame once, at import, and falls back
  to \<open>pd.DataFrame()\<close> when loading fails. A data frame is modelled by its column labels
  and its rows, each row the dictionary \<open>to_dict(orient="records")\<close> gives for it.
  \<open>df.empty\<close> holds when either axis has length zero.
\<close>

record dataframe =
  df_columns :: "string list"
  df_rows :: "item list"

definition df_empty :: "dataframe \<Rightarrow> bool" where
  "df_empty df = (df_columns df = [] \<or> df_rows df = [])"

text \<open>
  \<open>Series.str.contains(pat, case=False, na=False)\<close> treats \<open>pat\<close> as a regular
  expression. The regular expression engine is a parameter: compiling a pattern with
  \<open>re.IGNORECASE\<close> raises \<open>re.error\<close> or gives the test \<open>re.search\<close> performs on a
  string. The \<open>.str\<close> accessor raises \<open>AttributeError\<close> on a column that holds no text;
  a cell that is not a string gives \<open>na\<close>, here \<open>False\<close>.
\<close>

type_synonym re_compile = "string \<Rightarrow> exn + (string \<Rightarrow> bool)"

fun is_str :: "pyval option \<Rightarrow> bool" where
  "is_str (Some (PStr s)) = True"
| "is_str cell = False"

fun cell_contains :: "(string \<Rightarrow> bool) \<Rightarrow> pyval option \<Rightarrow> bool" where
  "cell_contains found (Some (PStr s)) = found s"
| "cell_contains found cell = False"

definition str_contains :: "re_compile \<Rightarrow> pyval option list \<Rightarrow> string \<Rightarrow> exn + bool list" where
  "str_contains re col pat =
     (if \<not> list_ex is_str col
      then Inl (AttributeError ''Can only use .str accessor with string values!'')
      else case re pat of
             Inl e \<Rightarrow> Inl e
           | Inr found \<Rightarrow> Inr (map (cell_contains found) col))"

text \<open>\<open>df[mask]\<close>: the rows whose entry in the boolean list is true, in order.\<close>

definition boolean_index :: "'a list \<Rightarrow> bool list \<Rightarrow> 'a list" where
  "boolean_index rows selected = map fst (filter snd (zip rows selected))"

text \<open>
  \<open>DataFrame.sample(n=n)\<close> draws \<open>n\<close> rows without replacement. The random generator is
  a parameter: asked for a position among \<open>k\<close> remaining rows it answers with a number,
  read modulo \<open>k\<close>. The remaining rows are fewer at every draw, so any sequence of picks
  is the behaviour of some generator. A negative \<open>n\<close> and an \<open>n\<close> beyond the number of
  rows raise \<open>ValueError\<close>.
\<close>

fun draw :: "(nat \<Rightarrow> nat) \<Rightarrow> nat \<Rightarrow> 'a list \<Rightarrow> 'a list" where
  "draw rng 0 xs = []"
| "draw rng (Suc n) xs =
     (if xs = [] then []
      else (let i = rng (length xs) mod length xs
            in xs ! i # draw rng n (take i xs @ drop (Suc i) xs)))"

definition sample :: "(nat \<Rightarrow> nat) \<Rightarrow> int \<Rightarrow> 'a list \<Rightarrow> exn + 'a list" where
  "sample rng n xs =
     (if n < 0
      then Inl (ValueError ''A negative number of rows requested. Please provide `n` >= 0.'')
      else if int (length xs) < n
      then Inl (ValueError (''Cannot take a larger sample than population when ''
                              @ [CHR 0x27] @ ''replace=False'' @ [CHR 0x27]))
      else Inr (draw rng (nat n) xs))"

text \<open>
  \<open>generate_quiz\<close> reads the module's data frame, here the parameter \<open>df\<close>. The
  parameter \<open>difficulty\<close> is not used by the body. The line printed when no row matches
  is left out.
\<close>

definition generate_quiz ::
  "re_compile \<Rightarrow> (nat \<Rightarrow> nat) \<Rightarrow> dataframe \<Rightarrow> string \<Rightarrow> string \<Rightarrow> int \<Rightarrow> exn + item list" where
  "generate_quiz re rng df topic difficulty num_questions =
     (if df_empty df then Inr []
      else if ''topic'' \<notin> set (df_columns df) then Inl (KeyError ''topic'')
      else
        (case str_contains re (map (\<lambda>row. row ''topic'') (df_rows df)) topic of
           Inl e \<Rightarrow> Inl e
         | Inr selected \<Rightarrow>
             (let topic_df = boolean_index (df_rows df) selected;
                  topic_df = (if topic_df = [] then df_rows df else topic_df);
                  sample_size = min num_questions (int (length topic_df))
              in sample rng sample_size topic_df)))"

text \<open>
  \<open>get_quiz\<close> of \<open>app/main.py\<close> passes the topic and the difficulty of the request, so
  \<open>num_questions\<close> keeps its default 5. It has no exception handler: what
  \<open>generate_quiz\<close> raises leaves the endpoint. The response \<open>{"quiz": questions}\<close> is
  represented by \<open>questions\<close>.
\<close>

definition get_quiz ::
  "re_compile \<Rightarrow> (nat \<Rightarrow> nat) \<Rightarrow> dataframe \<Rightarrow> string \<Rightarrow> string \<Rightarrow> exn + item list" where
  "get_quiz re rng df topic difficulty = generate_quiz re rng df topic difficulty 5"

section \<open>Concrete inputs\<close>

text \<open>
  A client with no collection and nothing printed; the one-record corpus with a lecture;
  the one-record corpus whose lecture is the empty string; a corpus whose first record
  has no id; and a corpus of 501 records, one more than a batch holds.
\<close>

definition empty_world :: "(batch list) world" where
  "empty_world = \<lparr>collections = Map.empty, out = []\<rparr>"

definition mitosis :: item where
  "mitosis =
     [''id'' \<mapsto> PInt 1, ''prompt'' \<mapsto> PStr ''What is mitosis?'',
      ''lecture'' \<mapsto> PStr ''Mitosis is cell division.'', ''topic'' \<mapsto> PStr ''Biology'']"

definition scenario_a :: "item list" where
  "scenario_a = [mitosis]"




definition numbered :: "nat \<Rightarrow> item" where
  "numbered k = [''id'' \<mapsto> PInt (int k), ''prompt'' \<mapsto> PStr ''P'', ''lecture'' \<mapsto> PStr ''L'']"

definition corpus_501 :: "item list" where
  "corpus_501 = map numbered [0..<501]"

text \<open>A store that raises on every batch of exactly 500 documents.\<close>

definition full_batch_fails :: "batch \<Rightarrow> exn option" where
  "full_batch_fails b = (if length (fst b) = 500 then Some (ChromaError ''disk full'') else None)"

text \<open>
  A collection that holds nothing answers every query with one empty inner list per
  query text. A collection that answers a query with two documents, the nearer one on
  physics, the other on biology.
\<close>

definition empty_store :: collection_query where
  "empty_store query_texts n_results =
     Inr \<lparr>qr_documents = map (\<lambda>q. []) query_texts, qr_metadatas = map (\<lambda>q. []) query_texts\<rparr>"







text \<open>
  The regular expression engine on the patterns the examples use. A pattern without
  metacharacters searches for itself, and with \<open>re.IGNORECASE\<close> that is the substring
  test on the lowercased strings. The pattern \<open>(\<close> does not compile: \<open>re.compile\<close>
  raises \<open>re.error\<close> with the message below. Patterns with other metacharacters are
  outside this fragment, and no example uses one. Then a generator that always picks
  the first remaining row, and a data frame of two rows.
\<close>

definition lower_char :: "char \<Rightarrow> char" where
  "lower_char c =
     (case map_of (zip ''ABCDEFGHIJKLMNOPQRSTUVWXYZ'' ''abcdefghijklmnopqrstuvwxyz'') c of
        Some l \<Rightarrow> l
      | None \<Rightarrow> c)"

fun starts_with :: "string \<Rightarrow> string \<Rightarrow> bool" where
  "starts_with [] s = True"
| "starts_with (p # ps) [] = False"
| "starts_with (p # ps) (c # cs) = (p = c \<and> starts_with ps cs)"

fun substring :: "string \<Rightarrow> string \<Rightarrow> bool" where
  "substring p [] = (p = [])"
| "substring p (c # cs) = (starts_with p (c # cs) \<or> substring p cs)"

definition fragment_re :: re_compile where
  "fragment_re pat =
     (if pat = [CHR 0x28]
      then Inl (ReError ''missing ), unterminated subpattern at position 0'')
      else Inr (\<lambda>s. substring (map lower_char pat) (map lower_char s)))"

definition first_pick :: "nat \<Rightarrow> nat" where
  "first_pick k = 0"

definition gravity :: item where
  "gravity =
     [''id'' \<mapsto> PInt 2, ''prompt'' \<mapsto> PStr ''What is gravity?'',
      ''lecture'' \<mapsto> PStr ''Gravity pulls masses together.'', ''topic'' \<mapsto> PStr ''Physics'']"

definition quiz_frame :: dataframe where
  "quiz_frame =
     \<lparr>df_columns = [''id'', ''prompt'', ''lecture'', ''topic''], df_rows = [mitosis, gravity]\<rparr>"

section \<open>The query pipeline: results\<close>

lemma search_knowledge_empty:
  "query_fn [q] k = Inr r \<Longrightarrow> qr_documents r = [] # rest \<Longrightarrow>
   search_knowledge query_fn q k = Inr (RStr ''No relevant textbook info found.'')"
  by (simp add: search_knowledge_def)


section \<open>The ingestion pipeline: results\<close>

lemma process_items_ok:
  "list_all has_id data \<Longrightarrow>
   process_items data (ids, docs, metas) =
     Inr (ids @ map str_id data, docs @ map combined_text data, metas @ map metadata_of data)"
proof (induction data arbitrary: ids docs metas)
  case Nil
  then show ?case by simp
next
  case (Cons item rest)
  from Cons.prems have h: "has_id item" and r: "list_all has_id rest"
    by simp_all
  from h obtain v where v: "item ''id'' = Some v"
    by (auto simp: has_id_def)
  show ?case using Cons.IH [OF r] v by (simp add: str_id_def dict_get_def)
qed


lemma rebuild_fresh:
  "create_collection db
     (case delete_collection cols name of Inl e \<Rightarrow> cols | Inr cols' \<Rightarrow> cols') name
   = Inr (cols(name \<mapsto> empty_collection db))"
  by (cases "cols name") (simp_all add: create_collection_def delete_collection_def)

lemma add_batches_trace:
  "add_batches (trace_db fails) all tb is (c, printed) =
     (let bs = map (batch_at all) is;
          ok = takeWhile (\<lambda>i. fails (batch_at all i) = None) (filter (\<lambda>i. fst (batch_at all i) \<noteq> []) is)
      in (first_failure fails (filter (\<lambda>b. fst b \<noteq> []) bs),
          c @ map (batch_at all) ok,
          printed @ map (\<lambda>i. added_line i tb) ok))"
proof (induction "is" arbitrary: c printed)
  case Nil
  then show ?case by (simp add: first_failure_def)
next
  case (Cons i rest)
  show ?case
  proof (cases "fst (batch_at all i) = []")
    case True
    then show ?thesis using Cons.IH by (simp add: Let_def)
  next
    case False
    show ?thesis
    proof (cases "fails (batch_at all i)")
      case None
      then show ?thesis using False Cons.IH
        by (simp add: Let_def trace_db_def first_failure_def)
    next
      case (Some e)
      then show ?thesis using False
        by (simp add: Let_def trace_db_def first_failure_def)
    qed
  qed
qed


lemma py_range0_lt:
  assumes "0 < step" and "i \<in> set (py_range0 n step)"
  shows "i < n"
proof -
  from assms(2) obtain k where k: "k < (n + step - 1) div step" and i: "i = k * step"
    by (auto simp: py_range0_def)
  from k have "Suc k \<le> (n + step - 1) div step" by simp
  then have "Suc k * step \<le> n + step - 1"
    using assms(1) by (simp add: less_eq_div_iff_mult_less_eq)
  then show ?thesis using i assms(1) by simp
qed

lemma concat_slices_upto:
  "concat (map (\<lambda>k. slice (k * n) (k * n + n) xs) [0..<m]) = take (m * n) xs"
proof (induction m)
  case 0
  then show ?case by simp
next
  case (Suc m)
  have "take (m * n + n) xs = take (m * n) xs @ take n (drop (m * n) xs)"
    by (rule take_add)
  then show ?case using Suc by (simp add: slice_def add.commute)
qed

lemma concat_slices:
  assumes "0 < n"
  shows "concat (map (\<lambda>i. slice i (i + n) xs) (py_range0 (length xs) n)) = xs"
proof -
  have "length xs \<le> ((length xs + n - 1) div n) * n"
  proof -
    let ?t = "length xs + n - 1"
    have "?t div n * n + ?t mod n = ?t" by simp
    moreover have "?t mod n < n" using assms by simp
    ultimately show ?thesis by linarith
  qed
  then show ?thesis
    by (simp add: py_range0_def comp_def concat_slices_upto)
qed


lemma batch_size_pos: "0 < batch_size"
  by (simp add: batch_size_def)

lemma slice_map: "slice i j (map f xs) = map f (slice i j xs)"
  by (simp add: slice_def take_map drop_map)

lemma slice_zip: "slice i j (zip xs ys) = zip (slice i j xs) (slice i j ys)"
  by (simp add: slice_def take_zip drop_zip)

lemma slice_nonempty: "i < length xs \<Longrightarrow> i < j \<Longrightarrow> slice i j xs \<noteq> []"
  by (simp add: slice_def)

lemma length_slice: "length (slice i j xs) = min (j - i) (length xs - i)"
  by (simp add: slice_def)

lemma batch_at_all_of:
  "batch_at (all_of data) i =
     (map str_id (slice i (i + batch_size) data),
      map combined_text (slice i (i + batch_size) data),
      map metadata_of (slice i (i + batch_size) data))"
  by (simp add: batch_at_def all_of_def slice_map)

lemma entries_batch_at:
  "entries (batch_at (all_of data) i) = map entry_of (slice i (i + batch_size) data)"
  by (simp add: batch_at_all_of zip_map_map entry_of_def zip_same_conv_map)

lemma indexed_planned: "indexed (planned data) = map entry_of data"
proof -
  have "indexed (planned data) =
          concat (map (\<lambda>i. map entry_of (slice i (i + batch_size) data))
                    (py_range0 (length data) batch_size))"
    by (simp add: indexed_def planned_def comp_def entries_batch_at)
  also have "\<dots> = map entry_of
                   (concat (map (\<lambda>i. slice i (i + batch_size) data)
                              (py_range0 (length data) batch_size)))"
    by (simp add: map_concat comp_def)
  also have "\<dots> = map entry_of data"
    by (simp add: concat_slices batch_size_pos)
  finally show ?thesis .
qed

lemma planned_nonempty:
  "filter (\<lambda>i. fst (batch_at (all_of data) i) \<noteq> []) (py_range0 (length data) batch_size)
     = py_range0 (length data) batch_size"
proof (rule filter_True, rule ballI)
  fix i assume "i \<in> set (py_range0 (length data) batch_size)"
  then have "i < length data" by (rule py_range0_lt [OF batch_size_pos])
  then show "fst (batch_at (all_of data) i) \<noteq> []"
    by (simp add: batch_at_all_of slice_nonempty batch_size_pos)
qed

lemma build_Corpus:
  "build_knowledge_base db (Corpus data) w =
     (let w2 = \<lparr>collections = (collections w)(''exam_knowledge'' \<mapsto> empty_collection db),
                out = out w @ [''Building Vector Database...'',
                               ''Processing '' @ show_nat (length data) @ '' items...'']\<rparr>
      in case process_items data ([], [], []) of
           Inl e \<Rightarrow> (Some e, w2)
         | Inr all \<Rightarrow>
             (case add_batches db all (length (fst all) div batch_size + 1)
                     (py_range0 (length (fst all)) batch_size) (empty_collection db, out w2) of
                (r, c, printed) \<Rightarrow>
                  (r, \<lparr>collections = (collections w)(''exam_knowledge'' \<mapsto> c),
                       out = printed @ (case r of None \<Rightarrow> [''Database built successfully in /vector_store!''] | Some e \<Rightarrow> [])\<rparr>)))"
  by (simp add: build_knowledge_base_def rebuild_fresh Let_def split: sum.splits prod.splits option.splits)


lemma process_items_all_of:
  "list_all has_id data \<Longrightarrow> process_items data ([], [], []) = Inr (all_of data)"
  by (simp add: process_items_ok all_of_def)

lemma fst_all_of: "fst (all_of data) = map str_id data"
  by (simp add: all_of_def)

lemma first_failure_map_takeWhile:
  "first_failure fails (map f xs) = None \<longleftrightarrow> takeWhile (\<lambda>i. fails (f i) = None) xs = xs"
  by (induction xs) (auto simp: first_failure_def)

lemma build_trace:
  assumes "list_all has_id data"
  shows "build_knowledge_base (trace_db fails) (Corpus data) w =
     (first_failure fails (planned data),
      \<lparr>collections = (collections w)(''exam_knowledge'' \<mapsto>
                        takeWhile (\<lambda>b. fails b = None) (planned data)),
       out = out w @ run_lines data (length (takeWhile (\<lambda>b. fails b = None) (planned data)))
               @ (case first_failure fails (planned data) of
                    None \<Rightarrow> [''Database built successfully in /vector_store!'']
                  | Some e \<Rightarrow> [])\<rparr>)"
proof -
  let ?is = "py_range0 (length data) batch_size"
  let ?ok = "takeWhile (\<lambda>i. fails (batch_at (all_of data) i) = None) ?is"
  have tw: "takeWhile (\<lambda>b. fails b = None) (planned data) = map (batch_at (all_of data)) ?ok"
    by (simp add: planned_def takeWhile_map comp_def)
  have ok: "?ok = take (length ?ok) ?is"
    by (metis takeWhile_eq_take)
  have ff: "filter (\<lambda>b. fst b \<noteq> []) (map (batch_at (all_of data)) ?is) = planned data"
    by (simp add: filter_map comp_def planned_nonempty planned_def)
  have e: "empty_collection (trace_db fails) = []"
    by (simp add: trace_db_def)
  have "add_batches (trace_db fails) (all_of data) (length data div batch_size + 1) ?is
          ([], out w @ [''Building Vector Database...'',
                        ''Processing '' @ show_nat (length data) @ '' items...'']) =
        (first_failure fails (planned data),
         map (batch_at (all_of data)) ?ok,
         out w @ run_lines data (length ?ok))"
    apply (simp add: add_batches_trace Let_def planned_nonempty ff run_lines_def)
    apply (subst ok) apply simp
    done
  then show ?thesis
    by (simp add: build_Corpus process_items_all_of [OF assms] fst_all_of e tw Let_def)
qed


lemma first_failure_never: "first_failure never bs = None"
  by (induction bs) (simp_all add: first_failure_def never_def)

lemma takeWhile_never: "takeWhile (\<lambda>b. never b = None) bs = bs"
  by (simp add: never_def)

lemma build_never:
  assumes "list_all has_id data"
  shows "build_knowledge_base (trace_db never) (Corpus data) w =
     (None,
      \<lparr>collections = (collections w)(''exam_knowledge'' \<mapsto> planned data),
       out = out w @ run_lines data (length (planned data))
               @ [''Database built successfully in /vector_store!'']\<rparr>)"
  by (simp add: build_trace [OF assms] first_failure_never takeWhile_never)








lemma has_id_mitosis: "has_id mitosis"
  by (simp add: has_id_def mitosis_def)


lemma show_nat_digit: "n < 10 \<Longrightarrow> show_nat n = [''0123456789'' ! n]"
  by (simp add: show_nat.simps)



lemma build_never_indexed:
  assumes "list_all has_id data"
  shows "map_option indexed
           (collections (snd (build_knowledge_base (trace_db never) (Corpus data) w))
              ''exam_knowledge'') = Some (map entry_of data)"
  by (simp add: build_never [OF assms] indexed_planned)













lemma metadata_of_exact:
  "metadata_of item ''subject'' =
     Some (case item ''subject'' of
             None \<Rightarrow> ''General''
           | Some v \<Rightarrow> if truthy v then py_str v else ''General'')"
  "metadata_of item ''topic'' =
     Some (case item ''topic'' of
             None \<Rightarrow> ''General''
           | Some v \<Rightarrow> if truthy v then py_str v else ''General'')"
  "metadata_of item ''solution'' =
     Some (case item ''solution'' of
             None \<Rightarrow> []
           | Some v \<Rightarrow> if truthy v then py_str v else [])"
  "dom (metadata_of item) = {''subject'', ''topic'', ''solution''}"
  by (auto simp add: metadata_of_def get_or_def split: if_splits)

text \<open>
  Claim C6. When every record has an id, the run leaves in the collection one document
  per record, in record order, and the document of the record at position \<open>i\<close> has the
  record's id as a string, the text \<open>Question: {prompt} Context: {lecture}\<close> with the
  two fields rendered as an f-string renders them (an absent field as the empty string),
  which for a string prompt and a string lecture is the plain concatenation, and a
  metadata with exactly the keys \<open>subject\<close>, \<open>topic\<close> and \<open>solution\<close>, each mapped
  to a string. The stored value of a key is \<open>str\<close> of the record's value when the
  record has one that is truthy, so a non-empty string is stored as it is; it is the
  default when the key is absent from the record, or holds \<open>null\<close> or another falsy
  value: \<open>General\<close> for subject and topic, the empty string for solution.
\<close>

theorem indexed_document_text_and_metadata:
  assumes "list_all has_id data" and "i < length data"
  shows "\<exists>bs. collections (snd (build_knowledge_base (trace_db never) (Corpus data) w))
                 ''exam_knowledge'' = Some bs
           \<and> length (indexed bs) = length data
           \<and> (case indexed bs ! i of
                (doc_id, text, meta) \<Rightarrow>
                  doc_id = str_id (data ! i)
                  \<and> text = ''Question: '' @ py_str (dict_get (data ! i) ''prompt'' (PStr []))
                             @ '' Context: '' @ py_str (dict_get (data ! i) ''lecture'' (PStr []))
                  \<and> (\<forall>p l. (data ! i) ''prompt'' = Some (PStr p) \<longrightarrow>
                             (data ! i) ''lecture'' = Some (PStr l) \<longrightarrow>
                             text = ''Question: '' @ p @ '' Context: '' @ l)
                  \<and> dom meta = {''subject'', ''topic'', ''solution''}
                  \<and> meta ''subject'' =
                       Some (case (data ! i) ''subject'' of
                               None \<Rightarrow> ''General''
                             | Some v \<Rightarrow> if truthy v then py_str v else ''General'')
                  \<and> meta ''topic'' =
                       Some (case (data ! i) ''topic'' of
                               None \<Rightarrow> ''General''
                             | Some v \<Rightarrow> if truthy v then py_str v else ''General'')
                  \<and> meta ''solution'' =
                       Some (case (data ! i) ''solution'' of
                               None \<Rightarrow> []
                             | Some v \<Rightarrow> if truthy v then py_str v else [])
                  \<and> (\<forall>k s. k \<in> {''subject'', ''topic'', ''solution''} \<longrightarrow>
                             (data ! i) k = Some (PStr s) \<longrightarrow> s \<noteq> [] \<longrightarrow> meta k = Some s)
                  \<and> (\<forall>k. k \<in> {''subject'', ''topic''} \<longrightarrow>
                           (data ! i) k = None \<or> (data ! i) k = Some PNone \<longrightarrow>
                           meta k = Some ''General'')
                  \<and> ((data ! i) ''solution'' = None \<or> (data ! i) ''solution'' = Some PNone \<longrightarrow>
                       meta ''solution'' = Some []))"
proof -
  let ?item = "data ! i"
  have c: "collections (snd (build_knowledge_base (trace_db never) (Corpus data) w))
             ''exam_knowledge'' = Some (planned data)"
    by (simp add: build_never [OF assms(1)])
  have n: "indexed (planned data) ! i = entry_of ?item"
    using assms(2) by (simp add: indexed_planned)
  have l: "length (indexed (planned data)) = length data"
    by (simp add: indexed_planned)
  have t: "\<forall>p l. ?item ''prompt'' = Some (PStr p) \<longrightarrow> ?item ''lecture'' = Some (PStr l) \<longrightarrow>
             combined_text ?item = ''Question: '' @ p @ '' Context: '' @ l"
    by (simp add: combined_text_def dict_get_def)
  have p: "\<forall>k s. k \<in> {''subject'', ''topic'', ''solution''} \<longrightarrow>
             ?item k = Some (PStr s) \<longrightarrow> s \<noteq> [] \<longrightarrow> metadata_of ?item k = Some s"
    by (auto simp add: metadata_of_def get_or_def)
  have g: "\<forall>k. k \<in> {''subject'', ''topic''} \<longrightarrow>
             ?item k = None \<or> ?item k = Some PNone \<longrightarrow> metadata_of ?item k = Some ''General''"
    by (auto simp add: metadata_of_def get_or_def)
  have s: "?item ''solution'' = None \<or> ?item ''solution'' = Some PNone \<longrightarrow>
             metadata_of ?item ''solution'' = Some []"
    by (auto simp add: metadata_of_def get_or_def)
  have e: "case entry_of ?item of
             (doc_id, text, meta) \<Rightarrow>
                  doc_id = str_id ?item
                  \<and> text = ''Question: '' @ py_str (dict_get ?item ''prompt'' (PStr []))
                             @ '' Context: '' @ py_str (dict_get ?item ''lecture'' (PStr []))
                  \<and> (\<forall>p l. ?item ''prompt'' = Some (PStr p) \<longrightarrow>
                             ?item ''lecture'' = Some (PStr l) \<longrightarrow>
                             text = ''Question: '' @ p @ '' Context: '' @ l)
                  \<and> dom meta = {''subject'', ''topic'', ''solution''}
                  \<and> meta ''subject'' =
                       Some (case ?item ''subject'' of
                               None \<Rightarrow> ''General''
                             | Some v \<Rightarrow> if truthy v then py_str v else ''General'')
                  \<and> meta ''topic'' =
                       Some (case ?item ''topic'' of
                               None \<Rightarrow> ''General''
                             | Some v \<Rightarrow> if truthy v then py_str v else ''General'')
                  \<and> meta ''solution'' =
                       Some (case ?item ''solution'' of
                               None \<Rightarrow> []
                             | Some v \<Rightarrow> if truthy v then py_str v else [])
                  \<and> (\<forall>k s. k \<in> {''subject'', ''topic'', ''solution''} \<longrightarrow>
                             ?item k = Some (PStr s) \<longrightarrow> s \<noteq> [] \<longrightarrow> meta k = Some s)
                  \<and> (\<forall>k. k \<in> {''subject'', ''topic''} \<longrightarrow>
                           ?item k = None \<or> ?item k = Some PNone \<longrightarrow>
                           meta k = Some ''General'')
                  \<and> (?item ''solution'' = None \<or> ?item ''solution'' = Some PNone \<longrightarrow>
                       meta ''solution'' = Some [])"
    unfolding entry_of_def prod.case
    using t p g s metadata_of_exact [of ?item]
    by (intro conjI) (simp_all only: combined_text_def)
  from c l e [folded n] show ?thesis
    by (intro exI [of _ "planned data"] conjI)
qed

theorem indexed_document_text_and_metadata_witness:
  "list_all has_id scenario_a \<and> (0::nat) < length scenario_a \<and>
   (\<exists>bs. collections (snd (build_knowledge_base (trace_db never) (Corpus scenario_a) empty_world))
                 ''exam_knowledge'' = Some bs
           \<and> length (indexed bs) = length scenario_a
           \<and> (case indexed bs ! 0 of
                (doc_id, text, meta) \<Rightarrow>
                  doc_id = str_id (scenario_a ! 0)
                  \<and> text = ''Question: '' @ py_str (dict_get (scenario_a ! 0) ''prompt'' (PStr []))
                             @ '' Context: '' @ py_str (dict_get (scenario_a ! 0) ''lecture'' (PStr []))
                  \<and> (\<forall>p l. (scenario_a ! 0) ''prompt'' = Some (PStr p) \<longrightarrow>
                             (scenario_a ! 0) ''lecture'' = Some (PStr l) \<longrightarrow>
                             text = ''Question: '' @ p @ '' Context: '' @ l)
                  \<and> dom meta = {''subject'', ''topic'', ''solution''}
                  \<and> meta ''subject'' =
                       Some (case (scenario_a ! 0) ''subject'' of
                               None \<Rightarrow> ''General''
                             | Some v \<Rightarrow> if truthy v then py_str v else ''General'')
                  \<and> meta ''topic'' =
                       Some (case (scenario_a ! 0) ''topic'' of
                               None \<Rightarrow> ''General''
                             | Some v \<Rightarrow> if truthy v then py_str v else ''General'')
                  \<and> meta ''solution'' =
                       Some (case (scenario_a ! 0) ''solution'' of
                               None \<Rightarrow> []
                             | Some v \<Rightarrow> if truthy v then py_str v else [])
                  \<and> (\<forall>k s. k \<in> {''subject'', ''topic'', ''solution''} \<longrightarrow>
                             (scenario_a ! 0) k = Some (PStr s) \<longrightarrow> s \<noteq> [] \<longrightarrow> meta k = Some s)
                  \<and> (\<forall>k. k \<in> {''subject'', ''topic''} \<longrightarrow>
                           (scenario_a ! 0) k = None \<or> (scenario_a ! 0) k = Some PNone \<longrightarrow>
                           meta k = Some ''General'')
                  \<and> ((scenario_a ! 0) ''solution'' = None \<or> (scenario_a ! 0) ''solution'' = Some PNone \<longrightarrow>
                       meta ''solution'' = Some []))) \<and>
   map_option (\<lambda>bs. indexed bs ! 0)
     (collections (snd (build_knowledge_base (trace_db never) (Corpus scenario_a) empty_world))
        ''exam_knowledge'')
     = Some (''1'', ''Question: What is mitosis? Context: Mitosis is cell division.'',
             [''subject'' \<mapsto> ''General'', ''topic'' \<mapsto> ''Biology'', ''solution'' \<mapsto> []])"
proof -
  have h: "list_all has_id scenario_a"
    by (simp add: scenario_a_def has_id_mitosis)
  have i: "(0::nat) < length scenario_a"
    by (simp add: scenario_a_def)
  have "indexed (planned scenario_a) = [entry_of mitosis]"
    by (simp add: indexed_planned scenario_a_def)
  then have v: "map_option (\<lambda>bs. indexed bs ! 0)
     (collections (snd (build_knowledge_base (trace_db never) (Corpus scenario_a) empty_world))
        ''exam_knowledge'')
     = Some (''1'', ''Question: What is mitosis? Context: Mitosis is cell division.'',
             [''subject'' \<mapsto> ''General'', ''topic'' \<mapsto> ''Biology'', ''solution'' \<mapsto> []])"
    by (simp add: build_never [OF h] entry_of_def str_id_def combined_text_def metadata_of_def
                  get_or_def mitosis_def dict_get_def show_int_def show_nat_digit)
  from h i indexed_document_text_and_metadata [OF h i, of empty_world] v show ?thesis
    by (intro conjI)
qed

text \<open>
  Claim C4, amended. The loop over the batches has no exception handler. When
  \<open>collection.add\<close> raises on a batch, after succeeding on the batches before it, the
  exception leaves \<open>build_knowledge_base\<close>: the run ends with that exception, the
  collection holds the batches before the failing one and none after it, and the printed
  lines are the two opening lines and one progress line per batch that was added. No
  warning is printed, and the closing line is not printed either.
\<close>

theorem add_failure_ends_run:
  assumes "list_all has_id data"
    and "planned data = before @ b # after"
    and "list_all (\<lambda>x. fails x = None) before"
    and "fails b = Some e"
  shows "build_knowledge_base (trace_db fails) (Corpus data) w =
           (Some e,
            \<lparr>collections = (collections w)(''exam_knowledge'' \<mapsto> before),
             out = out w @ run_lines data (length before)\<rparr>)"
proof -
  from assms(3) have ok: "\<And>x. x \<in> set before \<Longrightarrow> fails x = None"
    by (simp add: list_all_iff)
  have tw: "takeWhile (\<lambda>x. fails x = None) (planned data) = before"
    using ok assms(4) by (simp add: assms(2) takeWhile_append2)
  have dw: "dropWhile (\<lambda>x. fails x = None) (planned data) = b # after"
    using ok assms(4) by (simp add: assms(2) dropWhile_append2)
  have ff: "first_failure fails (planned data) = Some e"
    by (simp add: first_failure_def dw assms(4))
  show ?thesis
    by (simp add: build_trace [OF assms(1)] tw ff)
qed

lemma has_id_numbered: "has_id (numbered k)"
  by (simp add: has_id_def numbered_def)

lemma corpus_501_ids: "list_all has_id corpus_501"
  by (simp add: corpus_501_def list_all_iff has_id_numbered)

lemma length_corpus_501: "length corpus_501 = 501"
  by (simp add: corpus_501_def)

lemma range_501: "py_range0 501 batch_size = [0, 500]"
  by (simp add: py_range0_def batch_size_def upt_rec)

lemma planned_501:
  "planned corpus_501 = [batch_at (all_of corpus_501) 0, batch_at (all_of corpus_501) 500]"
  by (simp add: planned_def length_corpus_501 range_501)

lemma first_batch_501: "length (fst (batch_at (all_of corpus_501) 0)) = 500"
  by (simp add: batch_at_all_of length_slice length_corpus_501 batch_size_def)

lemma second_batch_501: "length (fst (batch_at (all_of corpus_501) 500)) = 1"
  by (simp add: batch_at_all_of length_slice length_corpus_501 batch_size_def)

lemma show_nat_501: "show_nat 501 = ''501''"
  by (simp add: show_nat.simps)

text \<open>
  Claim C4, as stated, fails. A corpus of 501 records is cut into a batch of 500 and a
  batch of one. With a store that refuses a batch of 500 documents and accepts any
  other, the run ends with the store's exception, the collection is empty and only the
  two opening lines were printed: the second batch, which the store would have accepted,
  was never added, and no warning was printed.
\<close>

theorem failed_batch_stops_ingestion:
  "length (planned corpus_501) = 2 \<and>
   full_batch_fails (planned corpus_501 ! 0) = Some (ChromaError ''disk full'') \<and>
   full_batch_fails (planned corpus_501 ! 1) = None \<and>
   build_knowledge_base (trace_db full_batch_fails) (Corpus corpus_501) empty_world =
     (Some (ChromaError ''disk full''),
      \<lparr>collections = [''exam_knowledge'' \<mapsto> []],
       out = [''Building Vector Database...'', ''Processing 501 items...'']\<rparr>)"
proof -
  have a: "length (planned corpus_501) = 2"
    by (simp add: planned_501)
  have b: "full_batch_fails (planned corpus_501 ! 0) = Some (ChromaError ''disk full'')"
    by (simp add: planned_501 full_batch_fails_def first_batch_501)
  have c: "full_batch_fails (planned corpus_501 ! 1) = None"
    by (simp add: planned_501 full_batch_fails_def second_batch_501)
  have tw: "takeWhile (\<lambda>x. full_batch_fails x = None) (planned corpus_501) = []"
    using b by (simp add: planned_501)
  have ff: "first_failure full_batch_fails (planned corpus_501) = Some (ChromaError ''disk full'')"
    using b by (simp add: planned_501 first_failure_def)
  have d: "build_knowledge_base (trace_db full_batch_fails) (Corpus corpus_501) empty_world =
     (Some (ChromaError ''disk full''),
      \<lparr>collections = [''exam_knowledge'' \<mapsto> []],
       out = [''Building Vector Database...'', ''Processing 501 items...'']\<rparr>)"
    by (simp add: build_trace [OF corpus_501_ids] tw ff run_lines_def empty_world_def
                  length_corpus_501 show_nat_501)
  from a b c d show ?thesis by (intro conjI)
qed

theorem add_failure_ends_run_witness:
  "list_all has_id corpus_501 \<and>
   planned corpus_501 = [] @ batch_at (all_of corpus_501) 0 # [batch_at (all_of corpus_501) 500] \<and>
   list_all (\<lambda>x. full_batch_fails x = None) [] \<and>
   full_batch_fails (batch_at (all_of corpus_501) 0) = Some (ChromaError ''disk full'') \<and>
   build_knowledge_base (trace_db full_batch_fails) (Corpus corpus_501) empty_world =
     (Some (ChromaError ''disk full''),
      \<lparr>collections = (collections empty_world)(''exam_knowledge'' \<mapsto> []),
       out = out empty_world @ run_lines corpus_501 (length ([] :: batch list))\<rparr>)"
proof -
  have p: "planned corpus_501 =
             [] @ batch_at (all_of corpus_501) 0 # [batch_at (all_of corpus_501) 500]"
    by (simp add: planned_501)
  have n: "list_all (\<lambda>x. full_batch_fails x = None) []"
    by simp
  have f: "full_batch_fails (batch_at (all_of corpus_501) 0) = Some (ChromaError ''disk full'')"
    by (simp add: full_batch_fails_def first_batch_501)
  from corpus_501_ids p n f
       add_failure_ends_run [OF corpus_501_ids p n f, of empty_world]
  show ?thesis by (intro conjI)
qed



section \<open>The query pipeline: the response\<close>

text \<open>
  Claim C1. When the collection returns no document for the query, \<open>search_knowledge\<close>
  returns the message \<open>No relevant textbook info found.\<close> as a bare string, and the
  assignment \<open>context, topic = search_knowledge(...)\<close> in \<open>retrieve_context\<close> cannot
  unpack a string of 32 characters into two names: it raises \<open>ValueError\<close>, which the
  handler turns into an \<open>HTTPException\<close> with status 500. The request ends in an error,
  and no response carrying the message is returned.
\<close>

theorem empty_result_becomes_http_500:
  "retrieve_context empty_store q =
     ([''Received query: '' @ q, ''Error: too many values to unpack (expected 2)''],
      Inl (HTTPException 500 ''too many values to unpack (expected 2)''))"
  by (simp add: retrieve_context_def search_knowledge_def empty_store_def)



section \<open>The quiz generator: results\<close>

lemma length_draw: "length (draw rng n xs) = min n (length xs)"
proof (induction n arbitrary: xs)
  case 0
  show ?case by simp
next
  case (Suc n)
  show ?case
  proof (cases "xs = []")
    case True
    then show ?thesis by simp
  next
    case False
    let ?i = "rng (length xs) mod length xs"
    have i: "?i < length xs" using False by simp
    have l: "length (take ?i xs @ drop (Suc ?i) xs) = length xs - 1"
      using i by simp
    have d: "draw rng (Suc n) xs = xs ! ?i # draw rng n (take ?i xs @ drop (Suc ?i) xs)"
      using False by (simp add: Let_def)
    have "length (draw rng (Suc n) xs) = Suc (min n (length xs - 1))"
      by (simp only: d length_Cons Suc.IH l)
    also have "\<dots> = min (Suc n) (length xs)"
      using False by (cases xs) simp_all
    finally show ?thesis .
  qed
qed

lemma set_draw: "set (draw rng n xs) \<subseteq> set xs"
proof (induction n arbitrary: xs)
  case 0
  show ?case by simp
next
  case (Suc n)
  show ?case
  proof (cases "xs = []")
    case True
    then show ?thesis by simp
  next
    case False
    let ?i = "rng (length xs) mod length xs"
    have i: "?i < length xs" using False by simp
    have a: "xs ! ?i \<in> set xs" using i by simp
    have b: "set (take ?i xs @ drop (Suc ?i) xs) \<subseteq> set xs"
      using set_take_subset set_drop_subset by fastforce
    have c: "set (draw rng n (take ?i xs @ drop (Suc ?i) xs)) \<subseteq> set xs"
      using Suc.IH b by blast
    show ?thesis using False a c by (simp add: Let_def)
  qed
qed

lemma boolean_index_none:
  "\<forall>b \<in> set selected. \<not> b \<Longrightarrow> boolean_index rows selected = []"
  by (auto simp add: boolean_index_def filter_empty_conv dest: set_zip_rightD)

lemma boolean_index_subset: "set (boolean_index rows selected) \<subseteq> set rows"
  by (auto simp add: boolean_index_def dest: set_zip_leftD)

lemma sample_min:
  "0 \<le> n \<Longrightarrow> sample rng (min n (int (length xs))) xs = Inr (draw rng (nat (min n (int (length xs)))) xs)"
  by (simp add: sample_def)

lemma sample_nonempty:
  assumes "1 \<le> n" and "xs \<noteq> []"
  shows "\<exists>rows. sample rng (min n (int (length xs))) xs = Inr rows \<and> rows \<noteq> [] \<and>
                int (length rows) = min n (int (length xs)) \<and> set rows \<subseteq> set xs"
proof -
  let ?k = "min n (int (length xs))"
  have k: "1 \<le> ?k" using assms by (cases xs) simp_all
  have k0: "\<not> ?k < 0" using k by linarith
  have k1: "\<not> int (length xs) < ?k" by simp
  have s: "sample rng ?k xs = Inr (draw rng (nat ?k) xs)"
    by (simp only: sample_def k0 k1 if_False)
  have l: "length (draw rng (nat ?k) xs) = nat ?k"
    by (simp add: length_draw)
  have l': "int (length (draw rng (nat ?k) xs)) = ?k"
    using k unfolding l by simp
  have ne: "draw rng (nat ?k) xs \<noteq> []"
  proof
    assume "draw rng (nat ?k) xs = []"
    then have "nat ?k = 0" using l by simp
    with k show False by linarith
  qed
  from s ne l' set_draw [of rng "nat ?k" xs] show ?thesis by blast
qed

lemma generate_quiz_selected:
  assumes "\<not> df_empty df" and "''topic'' \<in> set (df_columns df)"
    and "str_contains re (map (\<lambda>row. row ''topic'') (df_rows df)) topic = Inr selected"
  shows "generate_quiz re rng df topic difficulty num_questions =
           (let topic_df = boolean_index (df_rows df) selected;
                topic_df = (if topic_df = [] then df_rows df else topic_df)
            in sample rng (min num_questions (int (length topic_df))) topic_df)"
  using assms by (simp add: generate_quiz_def Let_def)

lemma generate_quiz_error:
  assumes "\<not> df_empty df" and "''topic'' \<in> set (df_columns df)"
    and "str_contains re (map (\<lambda>row. row ''topic'') (df_rows df)) topic = Inl e"
  shows "generate_quiz re rng df topic difficulty num_questions = Inl e"
  using assms by (simp add: generate_quiz_def)

lemma generate_quiz_never_empty:
  assumes "\<not> df_empty df" and "1 \<le> num_questions"
  shows "generate_quiz re rng df t difficulty num_questions \<noteq> Inr []"
proof (cases "''topic'' \<in> set (df_columns df)")
  case False
  then show ?thesis using assms(1) by (simp add: generate_quiz_def)
next
  case True
  have rows: "df_rows df \<noteq> []" using assms(1) by (simp add: df_empty_def)
  show ?thesis
  proof (cases "str_contains re (map (\<lambda>row. row ''topic'') (df_rows df)) t")
    case (Inl e)
    show ?thesis unfolding generate_quiz_error [OF assms(1) True Inl] by simp
  next
    case (Inr selected)
    let ?f = "boolean_index (df_rows df) selected"
    let ?t = "if ?f = [] then df_rows df else ?f"
    have ne: "?t \<noteq> []" using rows by simp
    obtain rs where "sample rng (min num_questions (int (length ?t))) ?t = Inr rs" and "rs \<noteq> []"
      using sample_nonempty [OF assms(2) ne] by blast
    then show ?thesis
      unfolding generate_quiz_selected [OF assms(1) True Inr] Let_def by simp
  qed
qed

text \<open>
  The fall-back itself is implemented. When the topic compiles as a regular expression
  that is found in no row's topic, on a non-empty data frame whose \<open>topic\<close> column holds
  some text and with \<open>num_questions\<close> at least 1, \<open>generate_quiz\<close> returns a non-empty
  list of exactly \<open>min(num_questions, len(df))\<close> rows of the whole data frame.
\<close>

lemma unmatched_topic_samples_whole_corpus:
  assumes "\<not> df_empty df"
    and "''topic'' \<in> set (df_columns df)"
    and "list_ex is_str (map (\<lambda>row. row ''topic'') (df_rows df))"
    and "re topic = Inr found"
    and "list_all (\<lambda>row. \<not> cell_contains found (row ''topic'')) (df_rows df)"
    and "1 \<le> num_questions"
  shows "(\<exists>rows. generate_quiz re rng df topic difficulty num_questions = Inr rows \<and>
                 rows \<noteq> [] \<and>
                 int (length rows) = min num_questions (int (length (df_rows df))) \<and>
                 set rows \<subseteq> set (df_rows df)) \<and>
         (\<forall>t. generate_quiz re rng df t difficulty num_questions \<noteq> Inr [])"
proof -
  let ?col = "map (\<lambda>row. row ''topic'') (df_rows df)"
  let ?sel = "map (cell_contains found) ?col"
  have rows: "df_rows df \<noteq> []" using assms(1) by (simp add: df_empty_def)
  have sc: "str_contains re ?col topic = Inr ?sel"
    using assms(3,4) by (simp add: str_contains_def)
  have none: "\<forall>b \<in> set ?sel. \<not> b"
    using assms(5) by (auto simp add: list_all_iff)
  have f: "boolean_index (df_rows df) ?sel = []"
    by (rule boolean_index_none [OF none])
  have g: "generate_quiz re rng df topic difficulty num_questions =
             sample rng (min num_questions (int (length (df_rows df)))) (df_rows df)"
    unfolding generate_quiz_selected [OF assms(1,2) sc] Let_def f by simp
  have a: "\<exists>rows. generate_quiz re rng df topic difficulty num_questions = Inr rows \<and>
                 rows \<noteq> [] \<and>
                 int (length rows) = min num_questions (int (length (df_rows df))) \<and>
                 set rows \<subseteq> set (df_rows df)"
    unfolding g by (rule sample_nonempty [OF assms(6) rows])
  have b: "\<forall>t. generate_quiz re rng df t difficulty num_questions \<noteq> Inr []"
    using generate_quiz_never_empty [OF assms(1,6)] by blast
  from a b show ?thesis by (rule conjI)
qed

lemma unmatched_topic_samples_whole_corpus_example:
  "\<not> df_empty quiz_frame \<and>
   ''topic'' \<in> set (df_columns quiz_frame) \<and>
   list_ex is_str (map (\<lambda>row. row ''topic'') (df_rows quiz_frame)) \<and>
   fragment_re ''chemistry''
     = Inr (\<lambda>s. substring (map lower_char ''chemistry'') (map lower_char s)) \<and>
   list_all (\<lambda>row. \<not> cell_contains
                        (\<lambda>s. substring (map lower_char ''chemistry'') (map lower_char s))
                        (row ''topic''))
     (df_rows quiz_frame) \<and>
   (1::int) \<le> 5 \<and>
   (\<exists>rows. generate_quiz fragment_re first_pick quiz_frame ''chemistry'' ''Medium'' 5 = Inr rows \<and>
           rows \<noteq> [] \<and>
           int (length rows) = min 5 (int (length (df_rows quiz_frame))) \<and>
           set rows \<subseteq> set (df_rows quiz_frame))"
proof -
  have a: "\<not> df_empty quiz_frame"
    by (simp add: df_empty_def quiz_frame_def)
  have b: "''topic'' \<in> set (df_columns quiz_frame)"
    by (simp add: quiz_frame_def)
  have c: "list_ex is_str (map (\<lambda>row. row ''topic'') (df_rows quiz_frame))"
    by (simp add: quiz_frame_def mitosis_def)
  have d: "fragment_re ''chemistry''
             = Inr (\<lambda>s. substring (map lower_char ''chemistry'') (map lower_char s))"
    by (simp add: fragment_re_def)
  have e: "list_all (\<lambda>row. \<not> cell_contains
                        (\<lambda>s. substring (map lower_char ''chemistry'') (map lower_char s))
                        (row ''topic''))
             (df_rows quiz_frame)"
    by (simp add: quiz_frame_def mitosis_def gravity_def lower_char_def)
  have f: "(1::int) \<le> 5"
    by simp
  note t = unmatched_topic_samples_whole_corpus
             [where re = fragment_re and topic = "''chemistry''" and rng = first_pick
                and difficulty = "''Medium''", OF a b c d e f]
  from a b c d e f t [THEN conjunct1]
  show ?thesis by (intro conjI)
qed

lemma fragment_re_paren:
  "fragment_re ''('' = Inl (ReError ''missing ), unterminated subpattern at position 0'')"
  by (simp add: fragment_re_def)

text \<open>
  Claim C10. \<open>Series.str.contains\<close> reads the topic as a regular expression, not as a
  plain substring. The topic \<open>(\<close> is a substring of neither \<open>biology\<close> nor
  \<open>physics\<close>, so it matches no record of this non-empty data frame, and the claim
  expects the fall-back to the whole corpus: two records for the default of five
  questions. The pattern does not compile, though, so \<open>generate_quiz\<close> raises
  \<open>re.error\<close> before it reaches the fall-back, and so does \<open>get_quiz\<close>, which has no
  handler.
\<close>

theorem parenthesis_topic_raises_instead_of_falling_back:
  "\<not> df_empty quiz_frame \<and>
   map (\<lambda>row. row ''topic'') (df_rows quiz_frame)
     = [Some (PStr ''Biology''), Some (PStr ''Physics'')] \<and>
   \<not> substring ''('' (map lower_char ''Biology'') \<and>
   \<not> substring ''('' (map lower_char ''Physics'') \<and>
   generate_quiz fragment_re first_pick quiz_frame ''('' ''Medium'' 5
     = Inl (ReError ''missing ), unterminated subpattern at position 0'') \<and>
   get_quiz fragment_re first_pick quiz_frame ''('' ''Medium''
     = Inl (ReError ''missing ), unterminated subpattern at position 0'')"
proof -
  have a: "\<not> df_empty quiz_frame"
    by (simp add: df_empty_def quiz_frame_def)
  have b: "map (\<lambda>row. row ''topic'') (df_rows quiz_frame)
             = [Some (PStr ''Biology''), Some (PStr ''Physics'')]"
    by (simp add: quiz_frame_def mitosis_def gravity_def)
  have c: "\<not> substring ''('' (map lower_char ''Biology'')"
    by (simp add: lower_char_def)
  have d: "\<not> substring ''('' (map lower_char ''Physics'')"
    by (simp add: lower_char_def)
  have t: "''topic'' \<in> set (df_columns quiz_frame)"
    by (simp add: quiz_frame_def)
  have s: "str_contains fragment_re (map (\<lambda>row. row ''topic'') (df_rows quiz_frame)) ''(''
             = Inl (ReError ''missing ), unterminated subpattern at position 0'')"
    unfolding b by (simp add: str_contains_def fragment_re_paren)
  have e: "generate_quiz fragment_re first_pick quiz_frame ''('' ''Medium'' 5
     = Inl (ReError ''missing ), unterminated subpattern at position 0'')"
    by (rule generate_quiz_error [OF a t s])
  have f: "get_quiz fragment_re first_pick quiz_frame ''('' ''Medium''
     = Inl (ReError ''missing ), unterminated subpattern at position 0'')"
    unfolding get_quiz_def by (rule e)
  from a b c d e f show ?thesis by (intro conjI)
qed

end
